theory Spec2Isabelle
  imports Main "HOL-Library.Word"
begin

section \<open>certdx client: data model\<close>

text \<open>
  A shallow embedding of \<^verbatim>\<open>pkg/client/client.go\<close> and \<^verbatim>\<open>pkg/client/sds.go\<close>.
  Go byte slices are lists of 8-bit words (\<^verbatim>\<open>bytes.Equal\<close> is list equality: it does not
  tell a nil slice from an empty one, and neither does the model). Channels are not
  values of the model: what a goroutine receives from a channel is an input of its
  function, and what it sends, logs or writes is an event of the trace it returns.
\<close>

type_synonym bytes = "8 word list"

text \<open>\<^verbatim>\<open>type certData struct { Domains []string; Fullchain, Key []byte }\<close>\<close>

record certData =
  Domains :: "string list"
  Fullchain :: bytes
  Key :: bytes

text \<open>
  \<^verbatim>\<open>config.ClientCertification\<close>: the package \<^verbatim>\<open>config\<close> is not among the sources; the
  fields are the ones the sources read (\<^verbatim>\<open>c.Name\<close>, \<^verbatim>\<open>c.Domains\<close>, \<^verbatim>\<open>c.SavePath\<close>). The
  field \<^verbatim>\<open>Domains\<close> is called \<open>CertDomains\<close> here, because \<open>Domains\<close> is the field of
  \<open>certData\<close>.
\<close>

record ClientCertification =
  Name :: string
  CertDomains :: "string list"
  SavePath :: string

text \<open>
  \<^verbatim>\<open>type watchingCert struct\<close>. An update handler is a Go function value with effects
  outside the program (writing files, running a command); the model keeps handlers as
  opaque values of a type \<open>'h\<close> and records each call with its arguments. A handler is
  given a pointer to the configuration; the model takes the handlers not to write
  through it. \<^verbatim>\<open>UpdateChan\<close> and \<^verbatim>\<open>Stop\<close> are channels: their deliveries are the inputs
  of \<open>watch\<close> below. The calls on the wait group are bookkeeping for the shutdown and
  are left out.
\<close>

record 'h watchingCert =
  Data :: certData
  Config :: ClientCertification
  UpdateHandlers :: "'h list"

section \<open>The watch loop (client.go, watch)\<close>

text \<open>
  What the loop body does, in program order: the two log lines, the two assignments to
  \<^verbatim>\<open>c.Data\<close>, and every call \<^verbatim>\<open>handleFunc(c.Data.Fullchain, c.Data.Key, &c.Config)\<close>.
\<close>

datatype 'h watch_event =
    Notice "string list"
  | Info "string list"
  | SetFullchain bytes
  | SetKey bytes
  | HandleFunc 'h bytes bytes ClientCertification

fun is_HandleFunc :: "'h watch_event \<Rightarrow> bool" where
  "is_HandleFunc (HandleFunc h f k c) = True"
| "is_HandleFunc e = False"

fun is_Set :: "'h watch_event \<Rightarrow> bool" where
  "is_Set (SetFullchain b) = True"
| "is_Set (SetKey b) = True"
| "is_Set e = False"

text \<open>
  \<^verbatim>\<open>for _, handleFunc := range c.UpdateHandlers { handleFunc(c.Data.Fullchain, c.Data.Key, &c.Config) }\<close>:
  each iteration reads the held material again.
\<close>

fun run_handlers :: "'h watchingCert \<Rightarrow> 'h list \<Rightarrow> 'h watch_event list" where
  "run_handlers c [] = []"
| "run_handlers c (handleFunc # hs) =
     HandleFunc handleFunc (Fullchain (Data c)) (Key (Data c)) (Config c) # run_handlers c hs"

text \<open>The branch \<^verbatim>\<open>case newCert := <-c.UpdateChan\<close> of the select (client.go, lines 46-56).\<close>

definition watch_recv :: "'h watchingCert \<Rightarrow> certData \<Rightarrow> 'h watchingCert \<times> 'h watch_event list" where
  "watch_recv c newCert =
     (if Fullchain (Data c) \<noteq> Fullchain newCert \<or> Key (Data c) \<noteq> Key newCert then
        let c1 = c\<lparr>Data := (Data c)\<lparr>Fullchain := Fullchain newCert\<rparr>\<rparr>;
            c2 = c1\<lparr>Data := (Data c1)\<lparr>Key := Key newCert\<rparr>\<rparr>
        in (c2, [Notice (Domains newCert), SetFullchain (Fullchain newCert), SetKey (Key newCert)]
                  @ run_handlers c2 (UpdateHandlers c2))
      else (c, [Info (Domains newCert)]))"

text \<open>
  The \<^verbatim>\<open>for { select { ... } }\<close> loop. The list gives, in order, which case each select
  takes: the stop channel was closed, or a value arrived on the update channel. The
  result is the certificate, the trace, and whether the loop has returned (\<open>False\<close>: it
  is blocked in the select, the inputs being used up).
\<close>

datatype watch_select = StopClosed | UpdateRecv certData

fun watch :: "'h watchingCert \<Rightarrow> watch_select list \<Rightarrow> 'h watchingCert \<times> 'h watch_event list \<times> bool" where
  "watch c [] = (c, [], False)"
| "watch c (StopClosed # rest) = (c, [], True)"
| "watch c (UpdateRecv newCert # rest) =
     (case watch_recv c newCert of (c1, ev) \<Rightarrow>
        (case watch c1 rest of (c2, evs, stopped) \<Rightarrow> (c2, ev @ evs, stopped)))"

text \<open>
  Orderings of a trace. \<open>replaced_after_handlers\<close>: no handler is called once the held
  material has been written. \<open>replaced_before_handlers\<close>: the held material is not written
  once a handler has been called.
\<close>

definition replaced_after_handlers :: "'h watch_event list \<Rightarrow> bool" where
  "replaced_after_handlers tr = (\<not> list_ex is_HandleFunc (dropWhile (\<lambda>e. \<not> is_Set e) tr))"

definition replaced_before_handlers :: "'h watch_event list \<Rightarrow> bool" where
  "replaced_before_handlers tr = (\<not> list_ex is_Set (dropWhile (\<lambda>e. \<not> is_HandleFunc e) tr))"

section \<open>Polling mode (client.go, requestCert and certWatchDog)\<close>

text \<open>
  \<^verbatim>\<open>time.Duration\<close> is a signed 64-bit count of nanoseconds and \<^verbatim>\<open>time.Time\<close> is read
  through the monotonic clock; both are integers here. The only arithmetic the modelled
  code does on them is a division by 4, the addition of five minutes to a clock reading
  and a comparison, none of which leaves the 64-bit range for the values a clock or a
  server gives.
\<close>

definition Second :: int where
  "Second = 1000000000"

definition Minute :: int where
  "Minute = 60 * Second"

definition Hour :: int where
  "Hour = 60 * Minute"

text \<open>
  Go's integer division truncates towards zero, HOL's \<open>div\<close> rounds down: they differ
  on a negative dividend. \<open>go_div\<close> is Go's \<^verbatim>\<open>/\<close> for a positive divisor.
\<close>

definition go_div :: "int \<Rightarrow> int \<Rightarrow> int" where
  "go_div a b = (if 0 \<le> a then a div b else - ((- a) div b))"

text \<open>
  \<^verbatim>\<open>types.HttpCertResp\<close> (package \<^verbatim>\<open>types\<close> is not among the sources): the fields
  \<^verbatim>\<open>certWatchDog\<close> reads. Its field \<^verbatim>\<open>Key\<close> is \<open>RespKey\<close> here.
\<close>

record HttpCertResp =
  FullChain :: bytes
  RespKey :: bytes
  RenewTimeLeft :: int
  Err :: string

text \<open>
  The configuration (\<^verbatim>\<open>config.ClientConfigT\<close>, not among the sources), flattened to the
  fields the client reads: \<^verbatim>\<open>Server.RetryCount\<close>, \<^verbatim>\<open>Server.ReconnectDuration\<close>,
  \<^verbatim>\<open>Http.MainServer\<close>, \<^verbatim>\<open>Http.StandbyServer\<close> (of which only \<^verbatim>\<open>Url\<close> is read here) and
  \<^verbatim>\<open>GRPC.StandbyServer.Server\<close>.
\<close>

record HttpServer =
  Url :: string

record ClientConfigT =
  RetryCount :: int
  ReconnectDuration :: int
  HttpMainServer :: HttpServer
  HttpStandbyServer :: HttpServer
  GRPCStandbyServer :: string

text \<open>
  Modelled from the spec: \<^verbatim>\<open>utils.Retry\<close> is not among the sources. The spec (4.1): given
  a non-negative attempt budget N and a fallible operation, execute it up to N+1 times,
  returning on first success; if all attempts fail, return the last error; no sleep
  inside the helper. The operation is a function on the state \<open>'w\<close> of the world outside
  the program; \<open>Inl\<close> is its error, \<open>Inr\<close> the value it stores on success (the closures
  of \<^verbatim>\<open>requestCert\<close> assign the response to the captured variable \<^verbatim>\<open>resp\<close>). The spec
  says nothing of a negative budget; the model makes one attempt there, and every
  theorem below assumes the budget is not negative.
\<close>

function Retry :: "int \<Rightarrow> ('w \<Rightarrow> ('e + 'a) \<times> 'w) \<Rightarrow> 'w \<Rightarrow> ('e + 'a) \<times> 'w" where
  "Retry n f w =
     (case f w of
        (Inr v, w1) \<Rightarrow> (Inr v, w1)
      | (Inl e, w1) \<Rightarrow> if n \<le> 0 then (Inl e, w1) else Retry (n - 1) f w1)"
  by pat_completeness auto
termination
  by (relation "measure (\<lambda>(n, f, w). nat n)") auto

declare Retry.simps [simp del]

text \<open>
  \<^verbatim>\<open>requestCert\<close>. \<^verbatim>\<open>MakeCertDXHttpClient(...).GetCert(domains)\<close> is a network exchange whose
  code is not among the sources: it is the parameter \<open>GetCert\<close>, a function of the server
  and the domains on the state of the world, returning an error or a response. The two
  \<^verbatim>\<open>logging.Warn\<close> lines are left out.
\<close>

definition requestCert ::
  "ClientConfigT \<Rightarrow> (HttpServer \<Rightarrow> string list \<Rightarrow> 'w \<Rightarrow> (string + HttpCertResp) \<times> 'w)
     \<Rightarrow> string list \<Rightarrow> 'w \<Rightarrow> HttpCertResp option \<times> 'w" where
  "requestCert cfg GetCert domains w =
     (case Retry (RetryCount cfg) (GetCert (HttpMainServer cfg) domains) w of
        (Inr resp, w1) \<Rightarrow> (Some resp, w1)
      | (Inl err, w1) \<Rightarrow>
          if Url (HttpStandbyServer cfg) \<noteq> [] then
            (case Retry (RetryCount cfg) (GetCert (HttpStandbyServer cfg) domains) w1 of
               (Inr resp, w2) \<Rightarrow> (Some resp, w2)
             | (Inl err2, w2) \<Rightarrow> (None, w2))
          else (None, w1))"

text \<open>
  One round of the \<^verbatim>\<open>for\<close> loop of \<^verbatim>\<open>certWatchDog\<close>, up to the creation of the timer
  \<^verbatim>\<open>time.After(sleepTime)\<close>: the new value of the variable \<^verbatim>\<open>sleepTime\<close>, what the
  round logs and sends, and the world.
\<close>

datatype dog_event =
    Requesting "string list"
  | LogError string
  | UpdateChanPut certData
  | After int

definition certWatchDog_round ::
  "ClientConfigT \<Rightarrow> (HttpServer \<Rightarrow> string list \<Rightarrow> 'w \<Rightarrow> (string + HttpCertResp) \<times> 'w)
     \<Rightarrow> 'h watchingCert \<Rightarrow> int \<Rightarrow> 'w \<Rightarrow> int \<times> dog_event list \<times> 'w" where
  "certWatchDog_round cfg GetCert cert sleepTime w =
     (case requestCert cfg GetCert (CertDomains (Config cert)) w of
        (Some resp, w1) \<Rightarrow>
          if Err resp \<noteq> [] then
            (sleepTime,
             [Requesting (CertDomains (Config cert)),
              LogError (''Failed to request cert, err: '' @ Err resp),
              After sleepTime], w1)
          else
            (go_div (RenewTimeLeft resp) 4,
             [Requesting (CertDomains (Config cert)),
              UpdateChanPut \<lparr>Domains = CertDomains (Config cert),
                             Fullchain = FullChain resp, Key = RespKey resp\<rparr>,
              After (go_div (RenewTimeLeft resp) 4)], w1)
      | (None, w1) \<Rightarrow>
          (sleepTime,
           [Requesting (CertDomains (Config cert)),
            LogError ''Failed to request cert, retry next round.'',
            After sleepTime], w1))"

text \<open>
  The loop. After each round the select takes the timer or the closed stop channel; the
  list gives the cases taken, and the loop is cut off where the list ends.
\<close>

datatype dog_select = TimerFired | DogStopClosed

fun certWatchDog_from ::
  "ClientConfigT \<Rightarrow> (HttpServer \<Rightarrow> string list \<Rightarrow> 'w \<Rightarrow> (string + HttpCertResp) \<times> 'w)
     \<Rightarrow> 'h watchingCert \<Rightarrow> int \<Rightarrow> 'w \<Rightarrow> dog_select list \<Rightarrow> dog_event list \<times> 'w" where
  "certWatchDog_from cfg GetCert cert sleepTime w [] =
     (case certWatchDog_round cfg GetCert cert sleepTime w of (s1, ev, w1) \<Rightarrow> (ev, w1))"
| "certWatchDog_from cfg GetCert cert sleepTime w (DogStopClosed # rest) =
     (case certWatchDog_round cfg GetCert cert sleepTime w of (s1, ev, w1) \<Rightarrow> (ev, w1))"
| "certWatchDog_from cfg GetCert cert sleepTime w (TimerFired # rest) =
     (case certWatchDog_round cfg GetCert cert sleepTime w of (s1, ev, w1) \<Rightarrow>
        (case certWatchDog_from cfg GetCert cert s1 w1 rest of (evs, w2) \<Rightarrow> (ev @ evs, w2)))"

text \<open>\<^verbatim>\<open>sleepTime := 1 * time.Hour // default sleep time\<close>, then the loop.\<close>

definition certWatchDog ::
  "ClientConfigT \<Rightarrow> (HttpServer \<Rightarrow> string list \<Rightarrow> 'w \<Rightarrow> (string + HttpCertResp) \<times> 'w)
     \<Rightarrow> 'h watchingCert \<Rightarrow> 'w \<Rightarrow> dog_select list \<Rightarrow> dog_event list \<times> 'w" where
  "certWatchDog cfg GetCert cert w sels = certWatchDog_from cfg GetCert cert Hour w sels"

text \<open>
  A network to run the polling loop against: the state of the world is the list of the
  requests made so far, and \<open>reply srv k\<close> is what the server \<open>srv\<close> answers when it is
  asked as the request number \<open>k\<close> (counting from 0) of the whole run.
\<close>

definition scripted_GetCert ::
  "(HttpServer \<Rightarrow> nat \<Rightarrow> string + HttpCertResp) \<Rightarrow> HttpServer \<Rightarrow> string list
     \<Rightarrow> (HttpServer \<times> string list) list \<Rightarrow> (string + HttpCertResp) \<times> (HttpServer \<times> string list) list" where
  "scripted_GetCert reply srv domains reqs = (reply srv (length reqs), reqs @ [(srv, domains)])"

text \<open>
  The rounds a run of the polling loop makes: one more than the timers that fire
  before the stop channel is seen closed or the list ends.
\<close>

fun rounds :: "dog_select list \<Rightarrow> nat" where
  "rounds [] = Suc 0"
| "rounds (DogStopClosed # rest) = Suc 0"
| "rounds (TimerFired # rest) = Suc (rounds rest)"

text \<open>
  What \<open>n\<close> calls of \<^verbatim>\<open>requestCert\<close> for the same domains return, one after the other, from
  the world \<open>w\<close> on.
\<close>

fun polled ::
  "ClientConfigT \<Rightarrow> (HttpServer \<Rightarrow> string list \<Rightarrow> 'w \<Rightarrow> (string + HttpCertResp) \<times> 'w)
     \<Rightarrow> string list \<Rightarrow> 'w \<Rightarrow> nat \<Rightarrow> HttpCertResp option list" where
  "polled cfg GetCert domains w 0 = []"
| "polled cfg GetCert domains w (Suc n) =
     (case requestCert cfg GetCert domains w of
        (resp, w1) \<Rightarrow> resp # polled cfg GetCert domains w1 n)"

text \<open>
  The interval in force after a list of results of \<^verbatim>\<open>requestCert\<close>, in the words of the
  amended claim and not of the code: the renewal lead time, divided by 4, of the last
  response that has no error string, and the interval \<open>dflt\<close> when there is none.
\<close>

fun error_free :: "HttpCertResp option \<Rightarrow> bool" where
  "error_free None = False"
| "error_free (Some resp) = (Err resp = [])"

definition interval_in_force :: "int \<Rightarrow> HttpCertResp option list \<Rightarrow> int" where
  "interval_in_force dflt results =
     (case filter error_free (rev results) of
        Some resp # earlier \<Rightarrow> go_div (RenewTimeLeft resp) 4
      | _ \<Rightarrow> dflt)"

text \<open>The durations a trace of the polling loop waits for, in order.\<close>

fun waits :: "dog_event list \<Rightarrow> int list" where
  "waits [] = []"
| "waits (After d # evs) = d # waits evs"
| "waits (e # evs) = waits evs"

section \<open>The streaming client (sds.go)\<close>

definition typeUrl :: string where
  "typeUrl = ''type.googleapis.com/envoy.extensions.transport_sockets.tls.v3.Secret''"

definition domainKey :: string where
  "domainKey = ''domains''"

text \<open>
  The value \<^verbatim>\<open>Stream\<close> returns is a Go \<^verbatim>\<open>error\<close>: \<open>None\<close> is nil, \<open>killed\<close> is the
  sentinel \<^verbatim>\<open>*killed\<close> the loops of \<^verbatim>\<open>GRPCMain\<close> test for with a type assertion, and
  \<open>other_error\<close> is any other error.
\<close>

datatype stream_error = killed string | other_error string

text \<open>
  \<^verbatim>\<open>type CertDXgRPCClient struct\<close>: \<open>Kill\<close> says whether a token is waiting in the kill
  channel (a channel of capacity 1), \<open>Running\<close> is the atomic flag.
\<close>

record CertDXgRPCClient =
  Kill :: bool
  Running :: bool

text \<open>
  What the world decides during one call of \<^verbatim>\<open>Stream\<close>: whether \<^verbatim>\<open>grpc.NewClient\<close> and
  \<^verbatim>\<open>StreamSecrets\<close> fail, and which case the final select takes (the context is done with
  the error \<^verbatim>\<open>ctx.Err()\<close>, an error arrives on \<^verbatim>\<open>errChan\<close>, or a token arrives on the
  kill channel).
\<close>

datatype stream_end = CtxDone string | ErrChanRecv string | KillRecv

record stream_env =
  NewClientErr :: "string option"
  StreamSecretsErr :: "string option"
  Ending :: stream_end

text \<open>
  \<^verbatim>\<open>func (c *CertDXgRPCClient) Stream() error\<close>, the calling goroutine: the non-blocking
  receive from the kill channel, \<^verbatim>\<open>c.Running.Store(true)\<close>, the connection, the deferred
  function (registered only after \<^verbatim>\<open>grpc.NewClient\<close> has succeeded) and the final select.
  The goroutines it starts are \<open>receiver\<close>, \<open>handleCert\<close> and \<open>sender\<close> below.
\<close>

definition Stream :: "CertDXgRPCClient \<Rightarrow> stream_env \<Rightarrow> stream_error option \<times> CertDXgRPCClient" where
  "Stream c env =
     (if Kill c then (Some (killed ''stream killed''), c\<lparr>Kill := False\<rparr>)
      else
        let c1 = c\<lparr>Running := True\<rparr> in
        (case NewClientErr env of
           Some err \<Rightarrow> (Some (other_error (''new grpc client failed: '' @ err)), c1)
         | None \<Rightarrow>
             (case StreamSecretsErr env of
                Some err \<Rightarrow>
                  (Some (other_error (''stream secrets failed: '' @ err)), c1\<lparr>Running := False\<rparr>)
              | None \<Rightarrow>
                  (case Ending env of
                     CtxDone err \<Rightarrow> (Some (other_error err), c1\<lparr>Running := False\<rparr>)
                   | ErrChanRecv err \<Rightarrow> (Some (other_error err), c1\<lparr>Running := False\<rparr>)
                   | KillRecv \<Rightarrow> (Some (killed ''stream killed''), c1\<lparr>Running := False\<rparr>)))))"

subsection \<open>Messages\<close>

text \<open>
  The protobuf messages, with the fields the client reads or writes. A resource of a
  response is an \<^verbatim>\<open>anypb.Any\<close>, of a type \<open>'any\<close> here; \<^verbatim>\<open>anypb.UnmarshalTo\<close> is a parameter
  \<open>UnmarshalTo\<close> of the receiver, giving an error or the decoded secret. The field \<^verbatim>\<open>Name\<close>
  of a secret is \<open>SecretName\<close>, and the field \<^verbatim>\<open>VersionInfo\<close> of a request is
  \<open>ReqVersionInfo\<close>. \<open>GetInlineBytes\<close> is the generated getter, which gives nil for a nil
  receiver and for any other specifier.
\<close>

datatype DataSource =
    NoDataSource
  | Filename string
  | InlineBytes bytes
  | InlineString string
  | EnvironmentVariable string

fun GetInlineBytes :: "DataSource \<Rightarrow> bytes" where
  "GetInlineBytes (InlineBytes b) = b"
| "GetInlineBytes d = []"

record TlsCertificate =
  CertificateChain :: DataSource
  PrivateKey :: DataSource

datatype SecretType =
    Secret_TlsCertificate TlsCertificate
  | Secret_SessionTicketKeys
  | Secret_ValidationContext
  | Secret_GenericSecret
  | Secret_TypeNil

record tlsv3_Secret =
  SecretName :: string
  Type :: SecretType

record 'any DiscoveryResponse =
  VersionInfo :: string
  Resources :: "'any list"

record respData =
  Version :: string
  Secret :: tlsv3_Secret

text \<open>
  A request: \<open>Node\<close> is \<open>None\<close> when the request has no node, and otherwise the value
  stored in the node's metadata under \<open>domainKey\<close>, a map from certificate names to
  domain lists.
\<close>

record DiscoveryRequest =
  TypeUrl :: string
  ReqVersionInfo :: string
  ResourceNames :: "string list"
  Node :: "(string \<rightharpoonup> string list) option"

text \<open>
  What the goroutines of a stream do: \<open>ReceivedSwapped\<close> is
  \<^verbatim>\<open>close(*c.Received.Swap(&newReceived))\<close>; a channel \<^verbatim>\<open>dispatch[name]\<close> and the update
  channel of a certificate are named by the position of the certificate in \<^verbatim>\<open>c.certs\<close>;
  \<open>IndexPanic\<close> is the run-time panic of an index out of range.
\<close>

datatype stream_event =
    ReceivedSwapped
  | ErrChanSend string
  | RespChanSend nat respData
  | UpdateChanSend nat certData
  | AckSend DiscoveryRequest
  | StreamSend DiscoveryRequest
  | IndexPanic

subsection \<open>The dispatch table\<close>

text \<open>
  \<^verbatim>\<open>for _, cert := range c.certs { dispatch[cert.Config.Name] = make(chan respData); go c.handleCert(ctx, cert, dispatch[cert.Config.Name], ack, errChan) }\<close>:
  the handler number \<open>i\<close> owns the channel number \<open>i\<close>; a later certificate of the same
  name replaces the entry of the table.
\<close>

fun make_dispatch :: "'h watchingCert list \<Rightarrow> nat \<Rightarrow> (string \<rightharpoonup> nat) \<Rightarrow> (string \<rightharpoonup> nat)" where
  "make_dispatch [] i dispatch = dispatch"
| "make_dispatch (cert # rest) i dispatch =
     make_dispatch rest (Suc i) (dispatch(Name (Config cert) \<mapsto> i))"

definition dispatch_of :: "'h watchingCert list \<Rightarrow> (string \<rightharpoonup> nat)" where
  "dispatch_of certs = make_dispatch certs 0 Map.empty"

subsection \<open>The receiving goroutine\<close>

text \<open>
  One round of the loop after \<^verbatim>\<open>stream.Recv()\<close> has returned the response \<open>resp\<close>
  (sds.go, lines 144-163): the events, and whether the loop goes on.
  \<^verbatim>\<open>resp.Resources[0]\<close> is evaluated without a test of the length.
\<close>

definition receiver_round ::
  "('any \<Rightarrow> string + tlsv3_Secret) \<Rightarrow> (string \<rightharpoonup> nat) \<Rightarrow> 'any DiscoveryResponse
     \<Rightarrow> stream_event list \<times> bool" where
  "receiver_round UnmarshalTo dispatch resp =
     (case Resources resp of
        [] \<Rightarrow> ([ReceivedSwapped, IndexPanic], False)
      | r0 # rs \<Rightarrow>
          (case UnmarshalTo r0 of
             Inl err \<Rightarrow>
               ([ReceivedSwapped, ErrChanSend (''can not unmarshal message from srv: '' @ err)], False)
           | Inr secretResp \<Rightarrow>
               (case dispatch (SecretName secretResp) of
                  None \<Rightarrow>
                    ([ReceivedSwapped, ErrChanSend (''unexcepted cert: '' @ SecretName secretResp)], False)
                | Some respChan \<Rightarrow>
                    ([ReceivedSwapped,
                      RespChanSend respChan \<lparr>Version = VersionInfo resp, Secret = secretResp\<rparr>], True))))"

text \<open>
  The loop: each element of the list is what one round meets, the context being done,
  \<^verbatim>\<open>stream.Recv()\<close> failing, or a response.
\<close>

datatype 'any inbound = CtxDoneSeen | RecvFailed string | RecvOk "'any DiscoveryResponse"

fun receiver ::
  "('any \<Rightarrow> string + tlsv3_Secret) \<Rightarrow> (string \<rightharpoonup> nat) \<Rightarrow> 'any inbound list \<Rightarrow> stream_event list" where
  "receiver UnmarshalTo dispatch [] = []"
| "receiver UnmarshalTo dispatch (CtxDoneSeen # rest) = []"
| "receiver UnmarshalTo dispatch (RecvFailed err # rest) =
     [ErrChanSend (''failed receiving request: '' @ err)]"
| "receiver UnmarshalTo dispatch (RecvOk resp # rest) =
     (case receiver_round UnmarshalTo dispatch resp of
        (ev, True) \<Rightarrow> ev @ receiver UnmarshalTo dispatch rest
      | (ev, False) \<Rightarrow> ev)"

text \<open>What the receiver has put on the channel number \<open>i\<close>, in order.\<close>

fun dispatched :: "nat \<Rightarrow> stream_event list \<Rightarrow> respData list" where
  "dispatched i [] = []"
| "dispatched i (RespChanSend j rd # evs) = (if j = i then rd # dispatched i evs else dispatched i evs)"
| "dispatched i (e # evs) = dispatched i evs"

subsection \<open>The handler of one certificate\<close>

text \<open>
  \<^verbatim>\<open>handleCert\<close>, for the certificate \<open>cert\<close> at position \<open>i\<close>: the list gives what each
  select of the loop takes, a value from its channel or the end of the context. The
  wrapper \<^verbatim>\<open>*tlsv3.Secret_TlsCertificate\<close> of an unmarshalled secret always holds a message.
\<close>

datatype handler_in = RespRecv respData | HandlerCtxDone

fun handleCert :: "'h watchingCert \<Rightarrow> nat \<Rightarrow> handler_in list \<Rightarrow> stream_event list" where
  "handleCert cert i [] = []"
| "handleCert cert i (HandlerCtxDone # rest) = []"
| "handleCert cert i (RespRecv rd # rest) =
     (case Type (Secret rd) of
        Secret_TlsCertificate respCert \<Rightarrow>
          UpdateChanSend i \<lparr>Domains = CertDomains (Config cert),
                            Fullchain = GetInlineBytes (CertificateChain respCert),
                            Key = GetInlineBytes (PrivateKey respCert)\<rparr>
          # AckSend \<lparr>TypeUrl = typeUrl, ReqVersionInfo = Version rd,
                     ResourceNames = [Name (Config cert)], Node = None\<rparr>
          # handleCert cert i rest
      | _ \<Rightarrow> [ErrChanSend ''unexcepted resp type''])"

subsection \<open>The sending goroutine\<close>







fun updates_of :: "stream_event list \<Rightarrow> (nat \<times> certData) list" where
  "updates_of [] = []"
| "updates_of (UpdateChanSend i cd # evs) = (i, cd) # updates_of evs"
| "updates_of (e # evs) = updates_of evs"



section \<open>Streaming mode (client.go, GRPCMain)\<close>

text \<open>
  What the loops do besides calling \<^verbatim>\<open>Stream\<close>: \<open>Sleep\<close> is \<^verbatim>\<open>time.Sleep\<close>,
  \<open>GoStandbyLoop\<close> and \<open>GoForwardReceived\<close> are the two goroutines the main loop starts
  (the standby loop, and \<^verbatim>\<open>standByClient.Kill <- <-*mainClient.Received.Load()\<close>),
  \<open>WaitReconnect\<close> is the wait of \<^verbatim>\<open>time.After(r.Config.Server.ReconnectDuration)\<close>, and
  \<open>Returned\<close> is the return of the goroutine.
\<close>

datatype loop_event =
    CallStream
  | Sleep int
  | GoStandbyLoop
  | GoForwardReceived
  | WaitReconnect int
  | Returned

datatype control = Return | Continue

datatype reconnect_select = ReconnectTimer | KillSignal

text \<open>
  What one round of the main loop reads from outside: the clock at the top of the round
  (\<^verbatim>\<open>startTime := time.Now()\<close>), the value \<^verbatim>\<open>mainClient.Stream()\<close> returns, the clock when
  the error is examined (\<^verbatim>\<open>time.Now()\<close> in the test of the window), the flag
  \<^verbatim>\<open>standByClient.Running.Load()\<close>, and the case the last select takes.
\<close>

record main_obs =
  startTime :: int
  stream_err :: "stream_error option"
  checkTime :: int
  standbyRunning :: bool
  reconnect :: reconnect_select

text \<open>
  The rest of a round of the main loop from the log line of the retry count on
  (client.go, lines 235-281), for the value \<open>retryCount\<close> the counter has there: the
  counter after the round, the events, and whether the loop goes on.
\<close>

definition main_threshold ::
  "ClientConfigT \<Rightarrow> bool \<Rightarrow> int \<Rightarrow> main_obs \<Rightarrow> int \<times> loop_event list \<times> control" where
  "main_threshold cfg standByExists retryCount ob =
     (if retryCount < RetryCount cfg then (retryCount, [Sleep (15 * Second)], Continue)
      else
        (0,
         (if standByExists \<and> \<not> standbyRunning ob then [GoStandbyLoop, GoForwardReceived] else [])
           @ [WaitReconnect (ReconnectDuration cfg)],
         (case reconnect ob of ReconnectTimer \<Rightarrow> Continue | KillSignal \<Rightarrow> Return)))"

text \<open>One round of the main loop after \<^verbatim>\<open>mainClient.Stream()\<close> has returned (lines 221-281).\<close>

definition main_round ::
  "ClientConfigT \<Rightarrow> bool \<Rightarrow> int \<Rightarrow> main_obs \<Rightarrow> int \<times> loop_event list \<times> control" where
  "main_round cfg standByExists retryCount ob =
     (case stream_err ob of
        None \<Rightarrow> main_threshold cfg standByExists retryCount ob
      | Some (killed msg) \<Rightarrow> (retryCount, [], Return)
      | Some (other_error msg) \<Rightarrow>
          if checkTime ob < startTime ob + 5 * Minute
          then main_threshold cfg standByExists (retryCount + 1) ob
          else (0, [], Continue))"

fun main_loop :: "ClientConfigT \<Rightarrow> bool \<Rightarrow> int \<Rightarrow> main_obs list \<Rightarrow> loop_event list" where
  "main_loop cfg standByExists retryCount [] = []"
| "main_loop cfg standByExists retryCount (ob # obs) =
     (case main_round cfg standByExists retryCount ob of
        (rc, ev, Return) \<Rightarrow> CallStream # ev @ [Returned]
      | (rc, ev, Continue) \<Rightarrow> CallStream # ev @ main_loop cfg standByExists rc obs)"

text \<open>
  The goroutine of the main loop: \<^verbatim>\<open>standByExists := r.Config.GRPC.StandbyServer.Server != ""\<close>
  and \<^verbatim>\<open>retryCount := 0\<close>.
\<close>

definition GRPCMain_loop :: "ClientConfigT \<Rightarrow> main_obs list \<Rightarrow> loop_event list" where
  "GRPCMain_loop cfg obs = main_loop cfg (GRPCStandbyServer cfg \<noteq> []) 0 obs"

text \<open>
  The standby loop (lines 242-267). Its \<^verbatim>\<open>startTime := time.Now()\<close> stands before the
  \<^verbatim>\<open>for\<close>: it is a parameter of the round, read once when the goroutine starts. A round
  reads the value \<^verbatim>\<open>standByClient.Stream()\<close> returns and the clock when the error is
  examined. There is no test \<^verbatim>\<open>err != nil\<close> in this loop.
\<close>

record standby_obs =
  sb_stream_err :: "stream_error option"
  sb_checkTime :: int

text \<open>The rest of a round of the standby loop from the log line of the retry count on.\<close>

definition standby_threshold :: "ClientConfigT \<Rightarrow> int \<Rightarrow> int \<times> loop_event list \<times> control" where
  "standby_threshold cfg retryCount =
     (if retryCount < RetryCount cfg then (retryCount, [Sleep (15 * Second)], Continue)
      else (0, [WaitReconnect (ReconnectDuration cfg)], Continue))"

definition standby_round ::
  "ClientConfigT \<Rightarrow> int \<Rightarrow> int \<Rightarrow> standby_obs \<Rightarrow> int \<times> loop_event list \<times> control" where
  "standby_round cfg sbStartTime retryCount ob =
     (case sb_stream_err ob of
        Some (killed msg) \<Rightarrow> (retryCount, [], Return)
      | _ \<Rightarrow>
          if sb_checkTime ob < sbStartTime + 5 * Minute
          then standby_threshold cfg (retryCount + 1)
          else (0, [], Continue))"

fun standby_loop :: "ClientConfigT \<Rightarrow> int \<Rightarrow> int \<Rightarrow> standby_obs list \<Rightarrow> loop_event list" where
  "standby_loop cfg sbStartTime retryCount [] = []"
| "standby_loop cfg sbStartTime retryCount (ob # obs) =
     (case standby_round cfg sbStartTime retryCount ob of
        (rc, ev, Return) \<Rightarrow> CallStream # ev @ [Returned]
      | (rc, ev, Continue) \<Rightarrow> CallStream # ev @ standby_loop cfg sbStartTime rc obs)"

definition GRPCMain_standby_loop :: "ClientConfigT \<Rightarrow> int \<Rightarrow> standby_obs list \<Rightarrow> loop_event list" where
  "GRPCMain_standby_loop cfg sbStartTime obs = standby_loop cfg sbStartTime 0 obs"

section \<open>Example values\<close>

text \<open>
  A certificate for \<open>example.com\<close> holding the chain \<open>[1, 2]\<close> and the key \<open>[3]\<close>, with
  two handlers registered in the order \<open>write\<close>, \<open>reload\<close>.
\<close>

definition example_config :: ClientCertification where
  "example_config = \<lparr>Name = ''a'', CertDomains = [''example.com''], SavePath = ''/tmp''\<rparr>"

definition example_cert :: "string watchingCert" where
  "example_cert =
     \<lparr>Data = \<lparr>Domains = [''example.com''], Fullchain = [1, 2], Key = [3]\<rparr>,
      Config = example_config,
      UpdateHandlers = [''write'', ''reload'']\<rparr>"

text \<open>
  A polling configuration with a retry budget of 1 and both servers, and the same
  without a standby server.
\<close>

definition example_poll_config :: ClientConfigT where
  "example_poll_config =
     \<lparr>RetryCount = 1, ReconnectDuration = 0,
      HttpMainServer = \<lparr>Url = ''https://main''\<rparr>,
      HttpStandbyServer = \<lparr>Url = ''https://standby''\<rparr>,
      GRPCStandbyServer = []\<rparr>"

definition example_poll_config_no_standby :: ClientConfigT where
  "example_poll_config_no_standby = example_poll_config\<lparr>HttpStandbyServer := \<lparr>Url = []\<rparr>\<rparr>"

text \<open>
  Three networks. In \<open>example_reply\<close> the first request of the run is answered with a
  certificate that is to be renewed in 8 hours, and every later request fails. In
  \<open>example_reply_standby\<close> the main server always fails and the standby server answers
  with a lead time of 4 hours. In \<open>example_reply_down\<close> every request fails.
\<close>

definition example_reply :: "HttpServer \<Rightarrow> nat \<Rightarrow> string + HttpCertResp" where
  "example_reply srv k =
     (if k = 0 then Inr \<lparr>FullChain = [1], RespKey = [2], RenewTimeLeft = 8 * Hour, Err = []\<rparr>
      else Inl ''connection refused'')"

definition example_reply_standby :: "HttpServer \<Rightarrow> nat \<Rightarrow> string + HttpCertResp" where
  "example_reply_standby srv k =
     (if Url srv = ''https://standby''
      then Inr \<lparr>FullChain = [5], RespKey = [6], RenewTimeLeft = 4 * Hour, Err = []\<rparr>
      else Inl ''connection refused'')"

definition example_reply_down :: "HttpServer \<Rightarrow> nat \<Rightarrow> string + HttpCertResp" where
  "example_reply_down srv k = Inl ''connection refused''"

text \<open>
  In \<open>example_reply_errstring\<close> the first request is answered as in \<open>example_reply\<close>, the
  second with a response that carries an error string and a lead time of 4 hours, and
  every later request fails.
\<close>

definition example_reply_errstring :: "HttpServer \<Rightarrow> nat \<Rightarrow> string + HttpCertResp" where
  "example_reply_errstring srv k =
     (if k = 0 then Inr \<lparr>FullChain = [1], RespKey = [2], RenewTimeLeft = 8 * Hour, Err = []\<rparr>
      else if k = 1 then Inr \<lparr>FullChain = [], RespKey = [], RenewTimeLeft = 4 * Hour, Err = ''no such cert''\<rparr>
      else Inl ''connection refused'')"

text \<open>
  A streaming configuration with a retry budget of 3 and a standby server, and rounds of
  the two loops in which the stream fails one minute (\<open>early\<close>) and six or seven minutes
  (\<open>late\<close>) after the clock reading the window is measured from.
\<close>

definition example_grpc_config :: ClientConfigT where
  "example_grpc_config =
     \<lparr>RetryCount = 3, ReconnectDuration = 10 * Minute,
      HttpMainServer = \<lparr>Url = []\<rparr>, HttpStandbyServer = \<lparr>Url = []\<rparr>,
      GRPCStandbyServer = ''standby:443''\<rparr>"






text \<open>
  An attempt that starts 8 min 50 s and fails 9 min 40 s after the zero of the clock, as
  the main loop sees it (it reads the clock at both moments) and as the standby loop
  sees it (it reads the clock only when the error is examined).
\<close>

definition example_obs_short :: main_obs where
  "example_obs_short =
     \<lparr>startTime = 8 * Minute + 50 * Second, stream_err = Some (other_error ''EOF''),
      checkTime = 9 * Minute + 40 * Second, standbyRunning = False, reconnect = ReconnectTimer\<rparr>"

definition example_sb_obs_short :: standby_obs where
  "example_sb_obs_short =
     \<lparr>sb_stream_err = Some (other_error ''EOF''), sb_checkTime = 9 * Minute + 40 * Second\<rparr>"

text \<open>
  Responses of a stream whose resources are already decoded: a resource is either an
  unmarshalling error or a secret, and \<open>UnmarshalTo\<close> is the identity. \<open>example_resp\<close>
  carries a certificate for the name \<open>a\<close> of the example certificate, \<open>example_resp_unknown\<close>
  one for the name \<open>b\<close>, and \<open>example_resp_empty\<close> has no resource.
\<close>

definition example_secret :: tlsv3_Secret where
  "example_secret =
     \<lparr>SecretName = ''a'',
      Type = Secret_TlsCertificate \<lparr>CertificateChain = InlineBytes [1, 7], PrivateKey = InlineBytes [3]\<rparr>\<rparr>"

definition example_resp :: "(string + tlsv3_Secret) DiscoveryResponse" where
  "example_resp = \<lparr>VersionInfo = ''v1'', Resources = [Inr example_secret]\<rparr>"

definition example_resp_unknown :: "(string + tlsv3_Secret) DiscoveryResponse" where
  "example_resp_unknown = \<lparr>VersionInfo = ''v2'', Resources = [Inr (example_secret\<lparr>SecretName := ''b''\<rparr>)]\<rparr>"

definition example_resp_empty :: "(string + tlsv3_Secret) DiscoveryResponse" where
  "example_resp_empty = \<lparr>VersionInfo = ''v3'', Resources = []\<rparr>"


section \<open>Properties of the watch loop\<close>

lemma run_handlers_map:
  "run_handlers c hs = map (\<lambda>h. HandleFunc h (Fullchain (Data c)) (Key (Data c)) (Config c)) hs"
  by (induction hs) simp_all

lemma filter_HandleFunc_run_handlers:
  "filter is_HandleFunc (run_handlers c hs) = run_handlers c hs"
  by (induction hs) simp_all

lemma filter_Set_run_handlers:
  "filter is_Set (run_handlers c hs) = []"
  by (induction hs) simp_all

lemma dropWhile_not_HandleFunc_run_handlers:
  "dropWhile (\<lambda>e. \<not> is_HandleFunc e) (run_handlers c hs) = run_handlers c hs"
  by (cases hs) simp_all

lemma list_ex_Set_run_handlers:
  "\<not> list_ex is_Set (run_handlers c hs)"
  by (induction hs) simp_all

text \<open>
  C1. When the material that arrives on the update channel has the same chain bytes and
  the same key bytes as the held material, the loop body changes nothing and calls no
  handler: the only effect is the log line "not changed", and the loop goes on from the
  same state.
\<close>

theorem watch_identical_is_noop:
  assumes "Fullchain (Data c) = Fullchain newCert" and "Key (Data c) = Key newCert"
  shows "watch_recv c newCert = (c, [Info (Domains newCert)])
       \<and> filter is_HandleFunc (snd (watch_recv c newCert)) = []
       \<and> filter is_Set (snd (watch_recv c newCert)) = []
       \<and> watch c (UpdateRecv newCert # rest) =
           (case watch c rest of (c2, evs, stopped) \<Rightarrow> (c2, Info (Domains newCert) # evs, stopped))"
  using assms by (simp add: watch_recv_def)

theorem watch_identical_is_noop_witness:
  "watch_recv example_cert \<lparr>Domains = [''example.com''], Fullchain = [1, 2], Key = [3]\<rparr>
     = (example_cert, [Info [''example.com'']])
   \<and> watch example_cert [UpdateRecv \<lparr>Domains = [''example.com''], Fullchain = [1, 2], Key = [3]\<rparr>]
     = (example_cert, [Info [''example.com'']], False)"
  using watch_identical_is_noop
    [of example_cert "\<lparr>Domains = [''example.com''], Fullchain = [1, 2], Key = [3]\<rparr>" "[]"]
  by (simp add: example_cert_def)

text \<open>
  C2, as stated, fails: the claim has the held material replaced only after all handlers
  have run. The code assigns \<^verbatim>\<open>c.Data.Fullchain\<close> and \<^verbatim>\<open>c.Data.Key\<close> first and calls the
  handlers afterwards (client.go, lines 49-53): with a new chain \<open>[1, 7]\<close> for the example
  certificate, both handler calls come after the two assignments.
\<close>

theorem watch_replaces_before_handlers_counterexample:
  "Fullchain (Data example_cert) \<noteq> [1, 7]
   \<and> snd (watch_recv example_cert \<lparr>Domains = [''example.com''], Fullchain = [1, 7], Key = [3]\<rparr>)
       = [Notice [''example.com''], SetFullchain [1, 7], SetKey [3],
          HandleFunc ''write'' [1, 7] [3] example_config,
          HandleFunc ''reload'' [1, 7] [3] example_config]
   \<and> \<not> replaced_after_handlers
         (snd (watch_recv example_cert \<lparr>Domains = [''example.com''], Fullchain = [1, 7], Key = [3]\<rparr>))"
  by (simp add: watch_recv_def replaced_after_handlers_def example_cert_def)

text \<open>
  C2, amended. When the material that arrives differs from the held material in the
  chain or in the key, the held chain and key are first replaced by the new ones, and
  then every registered handler is called exactly once, in registration order, with the
  new chain and key and the certificate's configuration; nothing is written to the held
  material once the first handler has been called, and the domains, the configuration
  and the handlers of the certificate stay as they were.
\<close>

theorem watch_changed_replaces_then_runs_handlers:
  assumes "Fullchain (Data c) \<noteq> Fullchain newCert \<or> Key (Data c) \<noteq> Key newCert"
  shows "filter is_HandleFunc (snd (watch_recv c newCert)) =
           map (\<lambda>h. HandleFunc h (Fullchain newCert) (Key newCert) (Config c)) (UpdateHandlers c)
       \<and> filter is_Set (snd (watch_recv c newCert)) = [SetFullchain (Fullchain newCert), SetKey (Key newCert)]
       \<and> replaced_before_handlers (snd (watch_recv c newCert))
       \<and> fst (watch_recv c newCert) = c\<lparr>Data := (Data c)\<lparr>Fullchain := Fullchain newCert, Key := Key newCert\<rparr>\<rparr>"
proof -
  let ?c2 = "c\<lparr>Data := (Data c)\<lparr>Fullchain := Fullchain newCert, Key := Key newCert\<rparr>\<rparr>"
  have tr: "watch_recv c newCert =
      (?c2, [Notice (Domains newCert), SetFullchain (Fullchain newCert), SetKey (Key newCert)]
             @ run_handlers ?c2 (UpdateHandlers c))"
    using assms by (simp add: watch_recv_def Let_def)
  have calls: "filter is_HandleFunc (snd (watch_recv c newCert)) = run_handlers ?c2 (UpdateHandlers c)"
    by (simp add: tr filter_HandleFunc_run_handlers)
  have writes: "filter is_Set (snd (watch_recv c newCert)) =
      [SetFullchain (Fullchain newCert), SetKey (Key newCert)]"
    by (simp add: tr filter_Set_run_handlers)
  have order: "replaced_before_handlers (snd (watch_recv c newCert))"
    by (simp add: tr replaced_before_handlers_def dropWhile_append
        dropWhile_not_HandleFunc_run_handlers list_ex_Set_run_handlers)
  show ?thesis
    using calls writes order by (simp add: tr run_handlers_map)
qed

theorem watch_changed_replaces_then_runs_handlers_witness:
  "Key (Data example_cert) \<noteq> [4]
   \<and> filter is_HandleFunc
        (snd (watch_recv example_cert \<lparr>Domains = [''example.com''], Fullchain = [1, 2], Key = [4]\<rparr>))
       = [HandleFunc ''write'' [1, 2] [4] example_config, HandleFunc ''reload'' [1, 2] [4] example_config]
   \<and> Data (fst (watch_recv example_cert \<lparr>Domains = [''example.com''], Fullchain = [1, 2], Key = [4]\<rparr>))
       = \<lparr>Domains = [''example.com''], Fullchain = [1, 2], Key = [4]\<rparr>"
  using watch_changed_replaces_then_runs_handlers
    [of example_cert "\<lparr>Domains = [''example.com''], Fullchain = [1, 2], Key = [4]\<rparr>"]
  by (simp add: example_cert_def)

section \<open>Properties of polling mode\<close>

text \<open>
  \<open>Retry\<close> against a scripted network: when the attempt number \<open>j\<close> (from 0, within the
  budget) is the first that succeeds, there are \<open>j + 1\<close> requests; when the first
  \<open>n + 1\<close> attempts all fail, there are \<open>n + 1\<close> requests and the result is an error.
\<close>

lemma Retry_scripted_succeeds:
  assumes "j \<le> nat n"
    and "\<forall>i<j. isl (reply srv (length reqs + i))"
    and "reply srv (length reqs + j) = Inr r"
  shows "Retry n (scripted_GetCert reply srv d) reqs = (Inr r, reqs @ replicate (Suc j) (srv, d))"
  using assms
proof (induction j arbitrary: n reqs)
  case 0
  then show ?case
    by (subst Retry.simps) (simp add: scripted_GetCert_def)
next
  case (Suc j)
  from Suc.prems(2) have "isl (reply srv (length reqs))"
    by (metis add.right_neutral zero_less_Suc)
  then obtain e where e: "reply srv (length reqs) = Inl e"
    by (cases "reply srv (length reqs)") simp_all
  from Suc.prems(1) have n: "\<not> n \<le> 0" "j \<le> nat (n - 1)"
    by linarith+
  have later: "\<forall>i<j. isl (reply srv (length (reqs @ [(srv, d)]) + i))"
    using Suc.prems(2) by (metis Suc_less_eq add_Suc_shift length_append_singleton)
  have hit: "reply srv (length (reqs @ [(srv, d)]) + j) = Inr r"
    using Suc.prems(3) by simp
  have "Retry n (scripted_GetCert reply srv d) reqs
          = Retry (n - 1) (scripted_GetCert reply srv d) (reqs @ [(srv, d)])"
    by (subst Retry.simps) (simp add: scripted_GetCert_def e n)
  also have "\<dots> = (Inr r, (reqs @ [(srv, d)]) @ replicate (Suc j) (srv, d))"
    by (rule Suc.IH [OF n(2) later hit])
  finally show ?case
    by (simp add: replicate_app_Cons_same)
qed

lemma Retry_scripted_exhausts:
  assumes "0 \<le> n"
    and "\<forall>i\<le>nat n. isl (reply srv (length reqs + i))"
  shows "\<exists>e. Retry n (scripted_GetCert reply srv d) reqs
             = (Inl e, reqs @ replicate (Suc (nat n)) (srv, d))"
  using assms
proof (induction "nat n" arbitrary: n reqs)
  case 0
  then have n: "n \<le> 0" by simp
  from 0 have "isl (reply srv (length reqs))" by simp
  then obtain e where e: "reply srv (length reqs) = Inl e"
    by (cases "reply srv (length reqs)") simp_all
  show ?case
    using 0(1) by (subst Retry.simps) (simp add: scripted_GetCert_def e n)
next
  case (Suc k)
  from Suc.prems(2) have "isl (reply srv (length reqs))"
    by (metis add.right_neutral le0)
  then obtain e where e: "reply srv (length reqs) = Inl e"
    by (cases "reply srv (length reqs)") simp_all
  from Suc.hyps(2) have n: "\<not> n \<le> 0" "k = nat (n - 1)" "0 \<le> n - 1"
    by linarith+
  have later: "\<forall>i\<le>nat (n - 1). isl (reply srv (length (reqs @ [(srv, d)]) + i))"
  proof (intro allI impI)
    fix i assume "i \<le> nat (n - 1)"
    then have "Suc i \<le> nat n" using n by linarith
    then have "isl (reply srv (length reqs + Suc i))" using Suc.prems(2) by blast
    then show "isl (reply srv (length (reqs @ [(srv, d)]) + i))" by simp
  qed
  from Suc.hyps(1) [OF n(2) n(3) later]
  obtain e' where "Retry (n - 1) (scripted_GetCert reply srv d) (reqs @ [(srv, d)])
      = (Inl e', (reqs @ [(srv, d)]) @ replicate (Suc (nat (n - 1))) (srv, d))"
    by blast
  moreover have "Retry n (scripted_GetCert reply srv d) reqs
          = Retry (n - 1) (scripted_GetCert reply srv d) (reqs @ [(srv, d)])"
    by (subst Retry.simps) (simp add: scripted_GetCert_def e n)
  moreover have "Suc (nat (n - 1)) = nat n" using n by linarith
  ultimately show ?case
    by (simp add: replicate_app_Cons_same)
qed


lemma requestCert_main_succeeds:
  assumes "j \<le> nat (RetryCount cfg)"
    and "\<forall>i<j. isl (reply (HttpMainServer cfg) (length reqs + i))"
    and "reply (HttpMainServer cfg) (length reqs + j) = Inr resp"
  shows "requestCert cfg (scripted_GetCert reply) d reqs
           = (Some resp, reqs @ replicate (Suc j) (HttpMainServer cfg, d))"
  using Retry_scripted_succeeds [where reply = reply and srv = "HttpMainServer cfg" and reqs = reqs
      and n = "RetryCount cfg" and j = j and r = resp and d = d] assms
  by (simp add: requestCert_def)

lemma requestCert_no_standby:
  assumes "0 \<le> RetryCount cfg"
    and "\<forall>i\<le>nat (RetryCount cfg). isl (reply (HttpMainServer cfg) (length reqs + i))"
    and "Url (HttpStandbyServer cfg) = []"
  shows "requestCert cfg (scripted_GetCert reply) d reqs
           = (None, reqs @ replicate (Suc (nat (RetryCount cfg))) (HttpMainServer cfg, d))"
proof -
  from Retry_scripted_exhausts [where reply = reply and srv = "HttpMainServer cfg" and reqs = reqs
      and n = "RetryCount cfg" and d = d] assms(1) assms(2)
  obtain e where "Retry (RetryCount cfg) (scripted_GetCert reply (HttpMainServer cfg) d) reqs
      = (Inl e, reqs @ replicate (Suc (nat (RetryCount cfg))) (HttpMainServer cfg, d))"
    by blast
  then show ?thesis
    by (simp add: requestCert_def assms(3))
qed

lemma requestCert_standby_succeeds:
  assumes "0 \<le> RetryCount cfg"
    and "\<forall>i\<le>nat (RetryCount cfg). isl (reply (HttpMainServer cfg) (length reqs + i))"
    and "Url (HttpStandbyServer cfg) \<noteq> []"
    and "j \<le> nat (RetryCount cfg)"
    and "\<forall>i<j. isl (reply (HttpStandbyServer cfg) (length reqs + Suc (nat (RetryCount cfg)) + i))"
    and "reply (HttpStandbyServer cfg) (length reqs + Suc (nat (RetryCount cfg)) + j) = Inr resp"
  shows "requestCert cfg (scripted_GetCert reply) d reqs
           = (Some resp, reqs @ replicate (Suc (nat (RetryCount cfg))) (HttpMainServer cfg, d)
                              @ replicate (Suc j) (HttpStandbyServer cfg, d))"
proof -
  let ?reqs1 = "reqs @ replicate (Suc (nat (RetryCount cfg))) (HttpMainServer cfg, d)"
  from Retry_scripted_exhausts [where reply = reply and srv = "HttpMainServer cfg" and reqs = reqs
      and n = "RetryCount cfg" and d = d] assms(1) assms(2)
  obtain e where main: "Retry (RetryCount cfg) (scripted_GetCert reply (HttpMainServer cfg) d) reqs
      = (Inl e, ?reqs1)"
    by blast
  have len: "length ?reqs1 = length reqs + Suc (nat (RetryCount cfg))"
    by simp
  have "Retry (RetryCount cfg) (scripted_GetCert reply (HttpStandbyServer cfg) d) ?reqs1
      = (Inr resp, ?reqs1 @ replicate (Suc j) (HttpStandbyServer cfg, d))"
    using Retry_scripted_succeeds [where reply = reply and srv = "HttpStandbyServer cfg"
        and reqs = ?reqs1 and n = "RetryCount cfg" and j = j and r = resp and d = d] assms(4-6)
    by (simp only: len)
  then show ?thesis
    by (simp add: requestCert_def main assms(3))
qed

lemma requestCert_both_exhaust:
  assumes "0 \<le> RetryCount cfg"
    and "\<forall>i\<le>nat (RetryCount cfg). isl (reply (HttpMainServer cfg) (length reqs + i))"
    and "Url (HttpStandbyServer cfg) \<noteq> []"
    and "\<forall>i\<le>nat (RetryCount cfg). isl (reply (HttpStandbyServer cfg) (length reqs + Suc (nat (RetryCount cfg)) + i))"
  shows "requestCert cfg (scripted_GetCert reply) d reqs
           = (None, reqs @ replicate (Suc (nat (RetryCount cfg))) (HttpMainServer cfg, d)
                         @ replicate (Suc (nat (RetryCount cfg))) (HttpStandbyServer cfg, d))"
proof -
  let ?reqs1 = "reqs @ replicate (Suc (nat (RetryCount cfg))) (HttpMainServer cfg, d)"
  from Retry_scripted_exhausts [where reply = reply and srv = "HttpMainServer cfg" and reqs = reqs
      and n = "RetryCount cfg" and d = d] assms(1) assms(2)
  obtain e where main: "Retry (RetryCount cfg) (scripted_GetCert reply (HttpMainServer cfg) d) reqs
      = (Inl e, ?reqs1)"
    by blast
  have len: "length ?reqs1 = length reqs + Suc (nat (RetryCount cfg))"
    by simp
  have "\<exists>e. Retry (RetryCount cfg) (scripted_GetCert reply (HttpStandbyServer cfg) d) ?reqs1
      = (Inl e, ?reqs1 @ replicate (Suc (nat (RetryCount cfg))) (HttpStandbyServer cfg, d))"
    using Retry_scripted_exhausts [where reply = reply and srv = "HttpStandbyServer cfg"
        and reqs = ?reqs1 and n = "RetryCount cfg" and d = d] assms(1,4)
    by (simp only: len)
  then show ?thesis
    by (auto simp add: requestCert_def main assms(3))
qed


text \<open>
  The loop carries the interval from round to round: the wait that ends round \<open>k\<close> is
  the interval in force after the results of the first \<open>k + 1\<close> calls of \<^verbatim>\<open>requestCert\<close>.
\<close>

lemma waits_append: "waits (xs @ ys) = waits xs @ waits ys"
  by (induction xs rule: waits.induct) simp_all

text \<open>The assignment to \<^verbatim>\<open>sleepTime\<close> in one round, as a function of what \<^verbatim>\<open>requestCert\<close> returns.\<close>

lemma certWatchDog_round_interval:
  assumes "requestCert cfg GetCert (CertDomains (Config cert)) w = (r, w1)"
  shows "\<exists>ev. certWatchDog_round cfg GetCert cert sleepTime w
               = (interval_in_force sleepTime [r], ev, w1)
            \<and> waits ev = [interval_in_force sleepTime [r]]"
  using assms
  by (cases r) (auto simp add: certWatchDog_round_def interval_in_force_def)

lemma interval_in_force_Cons:
  "interval_in_force dflt (r # results) = interval_in_force (interval_in_force dflt [r]) results"
proof (cases "filter error_free (rev results)")
  case Nil
  then show ?thesis
    by (simp add: interval_in_force_def)
next
  case (Cons x xs)
  then have "x \<in> set (filter error_free (rev results))" by simp
  then have "error_free x" by simp
  then obtain resp where "x = Some resp" by (cases x) simp_all
  with Cons show ?thesis
    by (simp add: interval_in_force_def)
qed

lemma certWatchDog_from_waits:
  "waits (fst (certWatchDog_from cfg GetCert cert sleepTime w sels))
     = map (\<lambda>k. interval_in_force sleepTime
                   (take (Suc k) (polled cfg GetCert (CertDomains (Config cert)) w (rounds sels))))
           [0..<rounds sels]"
proof (induction sels arbitrary: sleepTime w)
  case Nil
  obtain r w1 where rq: "requestCert cfg GetCert (CertDomains (Config cert)) w = (r, w1)"
    by (cases "requestCert cfg GetCert (CertDomains (Config cert)) w") auto
  from certWatchDog_round_interval [OF rq, of sleepTime] show ?case
    by (auto simp add: rq)
next
  case (Cons sel rest)
  obtain r w1 where rq: "requestCert cfg GetCert (CertDomains (Config cert)) w = (r, w1)"
    by (cases "requestCert cfg GetCert (CertDomains (Config cert)) w") auto
  from certWatchDog_round_interval [OF rq, of sleepTime]
  obtain ev where rnd: "certWatchDog_round cfg GetCert cert sleepTime w
               = (interval_in_force sleepTime [r], ev, w1)"
      and w: "waits ev = [interval_in_force sleepTime [r]]"
    by blast
  show ?case
  proof (cases sel)
    case DogStopClosed
    with rnd w show ?thesis by (simp add: rq)
  next
    case TimerFired
    let ?s1 = "interval_in_force sleepTime [r]"
    let ?ps = "polled cfg GetCert (CertDomains (Config cert)) w1 (rounds rest)"
    have "waits (fst (certWatchDog_from cfg GetCert cert sleepTime w (sel # rest)))
            = ?s1 # waits (fst (certWatchDog_from cfg GetCert cert ?s1 w1 rest))"
      by (simp add: TimerFired rnd w waits_append split: prod.splits)
    also have "\<dots> = ?s1 # map (\<lambda>k. interval_in_force ?s1 (take (Suc k) ?ps)) [0..<rounds rest]"
      by (simp only: Cons.IH)
    also have "\<dots> = map (\<lambda>k. interval_in_force sleepTime (take (Suc k) (r # ?ps)))
                         [0..<Suc (rounds rest)]"
    proof -
      have later: "interval_in_force sleepTime (take (Suc (Suc k)) (r # ?ps))
                     = interval_in_force ?s1 (take (Suc k) ?ps)" for k
        using interval_in_force_Cons [of sleepTime r "take (Suc k) ?ps"] by simp
      have "map (\<lambda>k. interval_in_force sleepTime (take (Suc k) (r # ?ps))) [0..<Suc (rounds rest)]
              = interval_in_force sleepTime (take (Suc 0) (r # ?ps))
                # map (\<lambda>k. interval_in_force sleepTime (take (Suc (Suc k)) (r # ?ps))) [0..<rounds rest]"
        by (rule map_upt_Suc)
      also have "\<dots> = ?s1 # map (\<lambda>k. interval_in_force ?s1 (take (Suc k) ?ps)) [0..<rounds rest]"
        by (simp only: later) simp
      finally show ?thesis by simp
    qed
    finally show ?thesis
      by (simp add: TimerFired rq del: upt_Suc)
  qed
qed


lemma go_div_four_hours: "go_div (4 * Hour) 4 = Hour"
  by (simp add: go_div_def Hour_def Minute_def Second_def)

text \<open>
  C3, as stated, fails in its middle part: a round in which both servers exhaust the
  budget is not always retried after 1 hour. The variable \<^verbatim>\<open>sleepTime\<close> is set to 1 hour
  before the loop and is only assigned on success, so a failed round waits for the
  interval of the last success. With a budget of 1, the first request answered with a
  lead time of 8 hours and every later request failing, the second round makes two
  requests to the main server and two to the standby server, reports the failure, and
  waits 2 hours.
\<close>

theorem poll_failed_round_keeps_interval_counterexample:
  "certWatchDog example_poll_config (scripted_GetCert example_reply) example_cert [] [TimerFired]
     = ([Requesting [''example.com''],
         UpdateChanPut \<lparr>Domains = [''example.com''], Fullchain = [1], Key = [2]\<rparr>,
         After (2 * Hour),
         Requesting [''example.com''],
         LogError ''Failed to request cert, retry next round.'',
         After (2 * Hour)],
        [(\<lparr>Url = ''https://main''\<rparr>, [''example.com'']),
         (\<lparr>Url = ''https://main''\<rparr>, [''example.com'']),
         (\<lparr>Url = ''https://main''\<rparr>, [''example.com'']),
         (\<lparr>Url = ''https://standby''\<rparr>, [''example.com'']),
         (\<lparr>Url = ''https://standby''\<rparr>, [''example.com''])])
   \<and> 2 * Hour \<noteq> Hour"
  by (simp add: certWatchDog_def certWatchDog_round_def requestCert_def Retry.simps
      scripted_GetCert_def example_reply_def example_poll_config_def example_cert_def
      example_config_def go_div_def Hour_def Minute_def Second_def)

text \<open>
  C3, amended. For a retry budget that is not negative, against a network that answers
  each request by its number in the run, a round of the polling loop started after the
  requests \<open>reqs\<close> with the interval \<open>sleepTime\<close>:
  \<^item> asks the main server first, at most budget + 1 times; when attempt \<open>j\<close> is the first
    to succeed and the response has no error string, the certificate is sent to the
    watcher and the interval becomes the lead time divided by 4;
  \<^item> when all budget + 1 attempts at the main server fail and the standby URL is not
    empty, asks the standby server for the same domains, at most budget + 1 times, with
    the same effect on success;
  \<^item> when the standby server fails budget + 1 times as well, or the standby URL is empty,
    reports the failure and waits for the interval unchanged;
  \<^item> when the response that ends the attempts carries an error string, reports it, asks
    no further server and waits for the interval unchanged;
  \<^item> over a whole run of the loop, against any network, the wait that ends each round is
    the interval in force after the rounds made so far: the lead time divided by 4 of
    the last response without error string, and 1 hour as long as there is none;
  \<^item> a lead time of 4 hours gives an interval of 1 hour.
\<close>

theorem poll_round_failover_and_interval:
  assumes "0 \<le> RetryCount cfg"
  shows
    "(j \<le> nat (RetryCount cfg)
        \<and> (\<forall>i<j. isl (reply (HttpMainServer cfg) (length reqs + i)))
        \<and> reply (HttpMainServer cfg) (length reqs + j) = Inr resp \<and> Err resp = []
      \<longrightarrow> certWatchDog_round cfg (scripted_GetCert reply) cert sleepTime reqs
            = (go_div (RenewTimeLeft resp) 4,
               [Requesting (CertDomains (Config cert)),
                UpdateChanPut \<lparr>Domains = CertDomains (Config cert),
                               Fullchain = FullChain resp, Key = RespKey resp\<rparr>,
                After (go_div (RenewTimeLeft resp) 4)],
               reqs @ replicate (Suc j) (HttpMainServer cfg, CertDomains (Config cert))))
   \<and> ((\<forall>i\<le>nat (RetryCount cfg). isl (reply (HttpMainServer cfg) (length reqs + i)))
        \<and> Url (HttpStandbyServer cfg) \<noteq> []
        \<and> j \<le> nat (RetryCount cfg)
        \<and> (\<forall>i<j. isl (reply (HttpStandbyServer cfg) (length reqs + Suc (nat (RetryCount cfg)) + i)))
        \<and> reply (HttpStandbyServer cfg) (length reqs + Suc (nat (RetryCount cfg)) + j) = Inr resp
        \<and> Err resp = []
      \<longrightarrow> certWatchDog_round cfg (scripted_GetCert reply) cert sleepTime reqs
            = (go_div (RenewTimeLeft resp) 4,
               [Requesting (CertDomains (Config cert)),
                UpdateChanPut \<lparr>Domains = CertDomains (Config cert),
                               Fullchain = FullChain resp, Key = RespKey resp\<rparr>,
                After (go_div (RenewTimeLeft resp) 4)],
               reqs @ replicate (Suc (nat (RetryCount cfg))) (HttpMainServer cfg, CertDomains (Config cert))
                    @ replicate (Suc j) (HttpStandbyServer cfg, CertDomains (Config cert))))
   \<and> ((\<forall>i\<le>nat (RetryCount cfg). isl (reply (HttpMainServer cfg) (length reqs + i)))
        \<and> Url (HttpStandbyServer cfg) \<noteq> []
        \<and> (\<forall>i\<le>nat (RetryCount cfg).
              isl (reply (HttpStandbyServer cfg) (length reqs + Suc (nat (RetryCount cfg)) + i)))
      \<longrightarrow> certWatchDog_round cfg (scripted_GetCert reply) cert sleepTime reqs
            = (sleepTime,
               [Requesting (CertDomains (Config cert)),
                LogError ''Failed to request cert, retry next round.'',
                After sleepTime],
               reqs @ replicate (Suc (nat (RetryCount cfg))) (HttpMainServer cfg, CertDomains (Config cert))
                    @ replicate (Suc (nat (RetryCount cfg))) (HttpStandbyServer cfg, CertDomains (Config cert))))
   \<and> ((\<forall>i\<le>nat (RetryCount cfg). isl (reply (HttpMainServer cfg) (length reqs + i)))
        \<and> Url (HttpStandbyServer cfg) = []
      \<longrightarrow> certWatchDog_round cfg (scripted_GetCert reply) cert sleepTime reqs
            = (sleepTime,
               [Requesting (CertDomains (Config cert)),
                LogError ''Failed to request cert, retry next round.'',
                After sleepTime],
               reqs @ replicate (Suc (nat (RetryCount cfg))) (HttpMainServer cfg, CertDomains (Config cert))))
   \<and> (j \<le> nat (RetryCount cfg)
        \<and> (\<forall>i<j. isl (reply (HttpMainServer cfg) (length reqs + i)))
        \<and> reply (HttpMainServer cfg) (length reqs + j) = Inr resp \<and> Err resp \<noteq> []
      \<longrightarrow> certWatchDog_round cfg (scripted_GetCert reply) cert sleepTime reqs
            = (sleepTime,
               [Requesting (CertDomains (Config cert)),
                LogError (''Failed to request cert, err: '' @ Err resp),
                After sleepTime],
               reqs @ replicate (Suc j) (HttpMainServer cfg, CertDomains (Config cert))))
   \<and> ((\<forall>i\<le>nat (RetryCount cfg). isl (reply (HttpMainServer cfg) (length reqs + i)))
        \<and> Url (HttpStandbyServer cfg) \<noteq> []
        \<and> j \<le> nat (RetryCount cfg)
        \<and> (\<forall>i<j. isl (reply (HttpStandbyServer cfg) (length reqs + Suc (nat (RetryCount cfg)) + i)))
        \<and> reply (HttpStandbyServer cfg) (length reqs + Suc (nat (RetryCount cfg)) + j) = Inr resp
        \<and> Err resp \<noteq> []
      \<longrightarrow> certWatchDog_round cfg (scripted_GetCert reply) cert sleepTime reqs
            = (sleepTime,
               [Requesting (CertDomains (Config cert)),
                LogError (''Failed to request cert, err: '' @ Err resp),
                After sleepTime],
               reqs @ replicate (Suc (nat (RetryCount cfg))) (HttpMainServer cfg, CertDomains (Config cert))
                    @ replicate (Suc j) (HttpStandbyServer cfg, CertDomains (Config cert))))
   \<and> waits (fst (certWatchDog cfg GetCert cert w sels))
         = map (\<lambda>k. interval_in_force Hour
                       (take (Suc k) (polled cfg GetCert (CertDomains (Config cert)) w (rounds sels))))
               [0..<rounds sels]
   \<and> go_div (4 * Hour) 4 = Hour"
proof (intro conjI impI)
  assume "j \<le> nat (RetryCount cfg)
        \<and> (\<forall>i<j. isl (reply (HttpMainServer cfg) (length reqs + i)))
        \<and> reply (HttpMainServer cfg) (length reqs + j) = Inr resp \<and> Err resp = []"
  then have "requestCert cfg (scripted_GetCert reply) (CertDomains (Config cert)) reqs
      = (Some resp, reqs @ replicate (Suc j) (HttpMainServer cfg, CertDomains (Config cert)))"
      and "Err resp = []"
    using requestCert_main_succeeds [where j = j and cfg = cfg and reply = reply and reqs = reqs
        and resp = resp and d = "CertDomains (Config cert)"]
    by simp_all
  then show "certWatchDog_round cfg (scripted_GetCert reply) cert sleepTime reqs
            = (go_div (RenewTimeLeft resp) 4,
               [Requesting (CertDomains (Config cert)),
                UpdateChanPut \<lparr>Domains = CertDomains (Config cert),
                               Fullchain = FullChain resp, Key = RespKey resp\<rparr>,
                After (go_div (RenewTimeLeft resp) 4)],
               reqs @ replicate (Suc j) (HttpMainServer cfg, CertDomains (Config cert)))"
    by (simp add: certWatchDog_round_def)
next
  assume "(\<forall>i\<le>nat (RetryCount cfg). isl (reply (HttpMainServer cfg) (length reqs + i)))
        \<and> Url (HttpStandbyServer cfg) \<noteq> []
        \<and> j \<le> nat (RetryCount cfg)
        \<and> (\<forall>i<j. isl (reply (HttpStandbyServer cfg) (length reqs + Suc (nat (RetryCount cfg)) + i)))
        \<and> reply (HttpStandbyServer cfg) (length reqs + Suc (nat (RetryCount cfg)) + j) = Inr resp
        \<and> Err resp = []"
  then have "requestCert cfg (scripted_GetCert reply) (CertDomains (Config cert)) reqs
      = (Some resp, reqs @ replicate (Suc (nat (RetryCount cfg))) (HttpMainServer cfg, CertDomains (Config cert))
                         @ replicate (Suc j) (HttpStandbyServer cfg, CertDomains (Config cert)))"
      and "Err resp = []"
    using assms requestCert_standby_succeeds [where j = j and cfg = cfg and reply = reply
        and reqs = reqs and resp = resp and d = "CertDomains (Config cert)"]
    by simp_all
  then show "certWatchDog_round cfg (scripted_GetCert reply) cert sleepTime reqs
            = (go_div (RenewTimeLeft resp) 4,
               [Requesting (CertDomains (Config cert)),
                UpdateChanPut \<lparr>Domains = CertDomains (Config cert),
                               Fullchain = FullChain resp, Key = RespKey resp\<rparr>,
                After (go_div (RenewTimeLeft resp) 4)],
               reqs @ replicate (Suc (nat (RetryCount cfg))) (HttpMainServer cfg, CertDomains (Config cert))
                    @ replicate (Suc j) (HttpStandbyServer cfg, CertDomains (Config cert)))"
    by (simp add: certWatchDog_round_def)
next
  assume "(\<forall>i\<le>nat (RetryCount cfg). isl (reply (HttpMainServer cfg) (length reqs + i)))
        \<and> Url (HttpStandbyServer cfg) \<noteq> []
        \<and> (\<forall>i\<le>nat (RetryCount cfg).
              isl (reply (HttpStandbyServer cfg) (length reqs + Suc (nat (RetryCount cfg)) + i)))"
  then show "certWatchDog_round cfg (scripted_GetCert reply) cert sleepTime reqs
            = (sleepTime,
               [Requesting (CertDomains (Config cert)),
                LogError ''Failed to request cert, retry next round.'',
                After sleepTime],
               reqs @ replicate (Suc (nat (RetryCount cfg))) (HttpMainServer cfg, CertDomains (Config cert))
                    @ replicate (Suc (nat (RetryCount cfg))) (HttpStandbyServer cfg, CertDomains (Config cert)))"
    using assms requestCert_both_exhaust [where cfg = cfg and reply = reply
        and reqs = reqs and d = "CertDomains (Config cert)"]
    by (simp add: certWatchDog_round_def)
next
  assume "(\<forall>i\<le>nat (RetryCount cfg). isl (reply (HttpMainServer cfg) (length reqs + i)))
        \<and> Url (HttpStandbyServer cfg) = []"
  then show "certWatchDog_round cfg (scripted_GetCert reply) cert sleepTime reqs
            = (sleepTime,
               [Requesting (CertDomains (Config cert)),
                LogError ''Failed to request cert, retry next round.'',
                After sleepTime],
               reqs @ replicate (Suc (nat (RetryCount cfg))) (HttpMainServer cfg, CertDomains (Config cert)))"
    using assms requestCert_no_standby [where cfg = cfg and reply = reply
        and reqs = reqs and d = "CertDomains (Config cert)"]
    by (simp add: certWatchDog_round_def)
next
  assume "j \<le> nat (RetryCount cfg)
        \<and> (\<forall>i<j. isl (reply (HttpMainServer cfg) (length reqs + i)))
        \<and> reply (HttpMainServer cfg) (length reqs + j) = Inr resp \<and> Err resp \<noteq> []"
  then have "requestCert cfg (scripted_GetCert reply) (CertDomains (Config cert)) reqs
      = (Some resp, reqs @ replicate (Suc j) (HttpMainServer cfg, CertDomains (Config cert)))"
      and "Err resp \<noteq> []"
    using requestCert_main_succeeds [where j = j and cfg = cfg and reply = reply and reqs = reqs
        and resp = resp and d = "CertDomains (Config cert)"]
    by simp_all
  then show "certWatchDog_round cfg (scripted_GetCert reply) cert sleepTime reqs
            = (sleepTime,
               [Requesting (CertDomains (Config cert)),
                LogError (''Failed to request cert, err: '' @ Err resp),
                After sleepTime],
               reqs @ replicate (Suc j) (HttpMainServer cfg, CertDomains (Config cert)))"
    by (simp add: certWatchDog_round_def)
next
  assume "(\<forall>i\<le>nat (RetryCount cfg). isl (reply (HttpMainServer cfg) (length reqs + i)))
        \<and> Url (HttpStandbyServer cfg) \<noteq> []
        \<and> j \<le> nat (RetryCount cfg)
        \<and> (\<forall>i<j. isl (reply (HttpStandbyServer cfg) (length reqs + Suc (nat (RetryCount cfg)) + i)))
        \<and> reply (HttpStandbyServer cfg) (length reqs + Suc (nat (RetryCount cfg)) + j) = Inr resp
        \<and> Err resp \<noteq> []"
  then have "requestCert cfg (scripted_GetCert reply) (CertDomains (Config cert)) reqs
      = (Some resp, reqs @ replicate (Suc (nat (RetryCount cfg))) (HttpMainServer cfg, CertDomains (Config cert))
                         @ replicate (Suc j) (HttpStandbyServer cfg, CertDomains (Config cert)))"
      and "Err resp \<noteq> []"
    using assms requestCert_standby_succeeds [where j = j and cfg = cfg and reply = reply
        and reqs = reqs and resp = resp and d = "CertDomains (Config cert)"]
    by simp_all
  then show "certWatchDog_round cfg (scripted_GetCert reply) cert sleepTime reqs
            = (sleepTime,
               [Requesting (CertDomains (Config cert)),
                LogError (''Failed to request cert, err: '' @ Err resp),
                After sleepTime],
               reqs @ replicate (Suc (nat (RetryCount cfg))) (HttpMainServer cfg, CertDomains (Config cert))
                    @ replicate (Suc j) (HttpStandbyServer cfg, CertDomains (Config cert)))"
    by (simp add: certWatchDog_round_def)
next
  show "waits (fst (certWatchDog cfg GetCert cert w sels))
         = map (\<lambda>k. interval_in_force Hour
                       (take (Suc k) (polled cfg GetCert (CertDomains (Config cert)) w (rounds sels))))
               [0..<rounds sels]"
    unfolding certWatchDog_def by (rule certWatchDog_from_waits)
next
  show "go_div (4 * Hour) 4 = Hour"
    by (rule go_div_four_hours)
qed

theorem poll_round_failover_and_interval_witness:
  "certWatchDog_round example_poll_config (scripted_GetCert example_reply) example_cert Hour []
     = (2 * Hour,
        [Requesting [''example.com''],
         UpdateChanPut \<lparr>Domains = [''example.com''], Fullchain = [1], Key = [2]\<rparr>,
         After (2 * Hour)],
        [(\<lparr>Url = ''https://main''\<rparr>, [''example.com''])])
   \<and> certWatchDog_round example_poll_config (scripted_GetCert example_reply_standby) example_cert Hour []
     = (Hour,
        [Requesting [''example.com''],
         UpdateChanPut \<lparr>Domains = [''example.com''], Fullchain = [5], Key = [6]\<rparr>,
         After Hour],
        [(\<lparr>Url = ''https://main''\<rparr>, [''example.com'']),
         (\<lparr>Url = ''https://main''\<rparr>, [''example.com'']),
         (\<lparr>Url = ''https://standby''\<rparr>, [''example.com''])])
   \<and> certWatchDog_round example_poll_config (scripted_GetCert example_reply_down) example_cert Hour []
     = (Hour,
        [Requesting [''example.com''],
         LogError ''Failed to request cert, retry next round.'',
         After Hour],
        [(\<lparr>Url = ''https://main''\<rparr>, [''example.com'']),
         (\<lparr>Url = ''https://main''\<rparr>, [''example.com'']),
         (\<lparr>Url = ''https://standby''\<rparr>, [''example.com'']),
         (\<lparr>Url = ''https://standby''\<rparr>, [''example.com''])])
   \<and> certWatchDog_round example_poll_config_no_standby (scripted_GetCert example_reply_down)
         example_cert Hour []
     = (Hour,
        [Requesting [''example.com''],
         LogError ''Failed to request cert, retry next round.'',
         After Hour],
        [(\<lparr>Url = ''https://main''\<rparr>, [''example.com'']),
         (\<lparr>Url = ''https://main''\<rparr>, [''example.com''])])
   \<and> certWatchDog_round example_poll_config (scripted_GetCert example_reply_errstring) example_cert
         (2 * Hour) [(\<lparr>Url = ''https://main''\<rparr>, [''example.com''])]
     = (2 * Hour,
        [Requesting [''example.com''],
         LogError ''Failed to request cert, err: no such cert'',
         After (2 * Hour)],
        [(\<lparr>Url = ''https://main''\<rparr>, [''example.com'']),
         (\<lparr>Url = ''https://main''\<rparr>, [''example.com''])])
   \<and> waits (fst (certWatchDog example_poll_config (scripted_GetCert example_reply_errstring)
                     example_cert [] [TimerFired, TimerFired]))
     = [2 * Hour, 2 * Hour, 2 * Hour]
   \<and> waits (fst (certWatchDog example_poll_config (scripted_GetCert example_reply_standby)
                     example_cert [] [TimerFired]))
     = [Hour, Hour]"
  using
    poll_round_failover_and_interval [where cfg = example_poll_config and reply = example_reply
      and cert = example_cert and sleepTime = Hour and reqs = "[]" and j = 0
      and resp = "\<lparr>FullChain = [1], RespKey = [2], RenewTimeLeft = 8 * Hour, Err = []\<rparr>"
      and GetCert = "scripted_GetCert example_reply" and w = "[]" and sels = "[]"]
    poll_round_failover_and_interval [where cfg = example_poll_config and reply = example_reply_standby
      and cert = example_cert and sleepTime = Hour and reqs = "[]" and j = 0
      and resp = "\<lparr>FullChain = [5], RespKey = [6], RenewTimeLeft = 4 * Hour, Err = []\<rparr>"
      and GetCert = "scripted_GetCert example_reply_standby" and w = "[]" and sels = "[TimerFired]"]
    poll_round_failover_and_interval [where cfg = example_poll_config and reply = example_reply_down
      and cert = example_cert and sleepTime = Hour and reqs = "[]"
      and GetCert = "scripted_GetCert example_reply_down" and w = "[]" and sels = "[]"]
    poll_round_failover_and_interval [where cfg = example_poll_config_no_standby
      and reply = example_reply_down and cert = example_cert and sleepTime = Hour and reqs = "[]"
      and GetCert = "scripted_GetCert example_reply_down" and w = "[]" and sels = "[]"]
    poll_round_failover_and_interval [where cfg = example_poll_config
      and reply = example_reply_errstring and cert = example_cert and sleepTime = "2 * Hour"
      and reqs = "[(\<lparr>Url = ''https://main''\<rparr>, [''example.com''])]" and j = 0
      and resp = "\<lparr>FullChain = [], RespKey = [], RenewTimeLeft = 4 * Hour, Err = ''no such cert''\<rparr>"
      and GetCert = "scripted_GetCert example_reply_errstring" and w = "[]"
      and sels = "[TimerFired, TimerFired]"]
  by (simp add: example_reply_def example_reply_standby_def example_reply_down_def
      example_reply_errstring_def example_poll_config_def example_poll_config_no_standby_def
      example_cert_def example_config_def go_div_def Hour_def Minute_def Second_def
      interval_in_force_def requestCert_def Retry.simps scripted_GetCert_def)

section \<open>Properties of streaming mode\<close>



text \<open>
  The window of the two loops. After a stream error that is not the kill sentinel, the
  main loop compares the clock with the reading taken at the top of the same round; the
  standby loop compares it with the reading taken once, before its loop.
\<close>

lemma main_round_window:
  assumes "stream_err ob = Some (other_error msg)"
  shows "main_round cfg standByExists retryCount ob =
           (if checkTime ob < startTime ob + 5 * Minute
            then main_threshold cfg standByExists (retryCount + 1) ob
            else (0, [], Continue))"
  using assms by (simp add: main_round_def)

lemma standby_round_window:
  assumes "sb_stream_err sob = Some (other_error msg)"
  shows "standby_round cfg sbStartTime retryCount sob =
           (if sb_checkTime sob < sbStartTime + 5 * Minute
            then standby_threshold cfg (retryCount + 1)
            else (0, [], Continue))"
  using assms by (simp add: standby_round_def)

text \<open>
  Once the standby loop is 5 minutes old, every failed attempt, however short, resets
  the counter and is followed at once by the next call of \<^verbatim>\<open>Stream\<close>: the loop never
  sleeps again.
\<close>

lemma standby_loop_never_sleeps_after_window:
  assumes "\<forall>sob \<in> set sobs. (\<exists>msg. sb_stream_err sob = Some (other_error msg))
                              \<and> sbStartTime + 5 * Minute \<le> sb_checkTime sob"
  shows "standby_loop cfg sbStartTime retryCount sobs = replicate (length sobs) CallStream"
  using assms
proof (induction sobs arbitrary: retryCount)
  case Nil
  show ?case by simp
next
  case (Cons sob sobs)
  from Cons.prems obtain msg where "sb_stream_err sob = Some (other_error msg)"
      and "sbStartTime + 5 * Minute \<le> sb_checkTime sob"
    by auto
  then have "standby_round cfg sbStartTime retryCount sob = (0, [], Continue)"
    by (simp add: standby_round_def)
  moreover have "standby_loop cfg sbStartTime 0 sobs = replicate (length sobs) CallStream"
    using Cons.prems by (intro Cons.IH) simp
  ultimately show ?case by simp
qed

text \<open>
  C4: the code does not do in the standby loop what the claim says of both loops. The
  main loop reads \<^verbatim>\<open>startTime\<close> at the top of every round (client.go, line 219), the
  standby loop reads it once before its \<^verbatim>\<open>for\<close> (line 243). Take a standby loop started
  at minute 1 with a budget of 3 and an attempt that starts at 8 min 50 s and fails at
  9 min 40 s, 50 seconds after its start: the standby round does not count the failure,
  it resets the counter and calls \<^verbatim>\<open>Stream\<close> again at once, and three such attempts in a
  row are three calls with no sleep between them; the main loop, for an attempt with the
  same two clock readings, counts the failure and sleeps 15 seconds.
\<close>

theorem standby_window_not_restarted_each_round:
  "standby_round example_grpc_config (1 * Minute) 0 example_sb_obs_short = (0, [], Continue)
   \<and> standby_loop example_grpc_config (1 * Minute) 0
        [example_sb_obs_short, example_sb_obs_short, example_sb_obs_short]
       = [CallStream, CallStream, CallStream]
   \<and> main_round example_grpc_config True 0 example_obs_short = (1, [Sleep (15 * Second)], Continue)
   \<and> main_loop example_grpc_config True 0 [example_obs_short] = [CallStream, Sleep (15 * Second)]"
  by (simp add: standby_round_def main_round_def main_threshold_def example_sb_obs_short_def
      example_obs_short_def example_grpc_config_def Minute_def Second_def)




text \<open>
  C9: the code does not keep the flag as the claim says. When \<^verbatim>\<open>grpc.NewClient\<close> fails,
  \<^verbatim>\<open>Stream\<close> has already stored \<open>True\<close> in \<^verbatim>\<open>Running\<close> and returns before the deferred
  function that stores \<open>False\<close> is registered (sds.go, lines 96-111): the flag stays
  \<open>True\<close> after the return.
\<close>

theorem Stream_NewClient_failure_leaves_Running:
  "Stream \<lparr>Kill = False, Running = False\<rparr>
       \<lparr>NewClientErr = Some ''invalid target'', StreamSecretsErr = None, Ending = CtxDone ''EOF''\<rparr>
     = (Some (other_error ''new grpc client failed: invalid target''), \<lparr>Kill = False, Running = True\<rparr>)"
  by (simp add: Stream_def)

text \<open>
  The flag after any return of \<^verbatim>\<open>Stream\<close>: unchanged when a kill token was waiting, and
  otherwise \<open>True\<close> exactly when \<^verbatim>\<open>grpc.NewClient\<close> failed.
\<close>

lemma Stream_Running_after_return:
  "Running (snd (Stream c env)) = (if Kill c then Running c else NewClientErr env \<noteq> None)"
  by (simp add: Stream_def Let_def split: option.splits stream_end.splits)

section \<open>Properties of the streaming client\<close>

lemma make_dispatch_None:
  "make_dispatch certs i d name = None
     \<longleftrightarrow> d name = None \<and> name \<notin> set (map (\<lambda>cert. Name (Config cert)) certs)"
  by (induction certs arbitrary: i d) auto



lemma dispatch_of_None:
  "dispatch_of certs name = None \<longleftrightarrow> name \<notin> set (map (\<lambda>cert. Name (Config cert)) certs)"
  by (simp add: dispatch_of_def make_dispatch_None)


lemma receiver_round_cases:
  "receiver_round UnmarshalTo dispatch resp = ([ReceivedSwapped, IndexPanic], False) \<and> Resources resp = []
   \<or> (\<exists>msg. receiver_round UnmarshalTo dispatch resp = ([ReceivedSwapped, ErrChanSend msg], False))
   \<or> (\<exists>res rs secretResp i. Resources resp = res # rs \<and> UnmarshalTo res = Inr secretResp
        \<and> dispatch (SecretName secretResp) = Some i
        \<and> receiver_round UnmarshalTo dispatch resp
            = ([ReceivedSwapped, RespChanSend i \<lparr>Version = VersionInfo resp, Secret = secretResp\<rparr>], True))"
  by (auto simp add: receiver_round_def split: list.splits sum.splits option.splits)

lemma dispatched_append: "dispatched i (xs @ ys) = dispatched i xs @ dispatched i ys"
  by (induction i xs rule: dispatched.induct) simp_all






lemma receiver_round_unknown:
  assumes "Resources resp = res # rs" and "UnmarshalTo res = Inr secretResp"
    and "SecretName secretResp \<notin> set (map (\<lambda>cert. Name (Config cert)) certs)"
  shows "receiver_round UnmarshalTo (dispatch_of certs) resp
           = ([ReceivedSwapped, ErrChanSend (''unexcepted cert: '' @ SecretName secretResp)], False)"
proof -
  from assms(3) have "dispatch_of certs (SecretName secretResp) = None"
    by (simp add: dispatch_of_None)
  with assms(1,2) show ?thesis
    by (simp add: receiver_round_def)
qed

lemma dispatched_receiver_stops:
  assumes "receiver_round UnmarshalTo dispatch resp = (ev, False)" and "dispatched i ev = []"
  shows "dispatched i (receiver UnmarshalTo dispatch (pre @ RecvOk resp # rest))
           = dispatched i (receiver UnmarshalTo dispatch pre)"
proof (induction pre)
  case Nil
  from assms show ?case by simp
next
  case (Cons x pre)
  show ?case
  proof (cases x)
    case (RecvOk r)
    obtain ev' b where r: "receiver_round UnmarshalTo dispatch r = (ev', b)"
      by (cases "receiver_round UnmarshalTo dispatch r") auto
    show ?thesis
      using Cons.IH by (cases b) (simp_all add: RecvOk r dispatched_append)
  qed simp_all
qed

text \<open>
  C7. When the first resource of a response decodes to a secret whose name is not the
  name of any certificate of the stream, the receiver sends the error "unexcepted cert"
  on the error channel and its loop ends; it puts nothing on any handler's channel for
  this response (wherever the response stands in the run, the channels hold what they
  held before it), so that no handler sends material to an update channel for it.
\<close>

theorem unknown_name_is_protocol_error:
  assumes "Resources resp = res # rs" and "UnmarshalTo res = Inr secretResp"
    and "SecretName secretResp \<notin> set (map (\<lambda>cert. Name (Config cert)) certs)"
  shows "receiver_round UnmarshalTo (dispatch_of certs) resp
           = ([ReceivedSwapped, ErrChanSend (''unexcepted cert: '' @ SecretName secretResp)], False)
       \<and> receiver UnmarshalTo (dispatch_of certs) (RecvOk resp # rest)
           = [ReceivedSwapped, ErrChanSend (''unexcepted cert: '' @ SecretName secretResp)]
       \<and> dispatched i (receiver UnmarshalTo (dispatch_of certs) (pre @ RecvOk resp # rest))
           = dispatched i (receiver UnmarshalTo (dispatch_of certs) pre)
       \<and> updates_of (handleCert cert i
            (map RespRecv (dispatched i (receiver UnmarshalTo (dispatch_of certs) (RecvOk resp # rest)))))
           = []"
proof -
  have round: "receiver_round UnmarshalTo (dispatch_of certs) resp
           = ([ReceivedSwapped, ErrChanSend (''unexcepted cert: '' @ SecretName secretResp)], False)"
    using assms
    by (rule receiver_round_unknown [where UnmarshalTo = UnmarshalTo and resp = resp
          and secretResp = secretResp and certs = certs])
  then have run: "receiver UnmarshalTo (dispatch_of certs) (RecvOk resp # rest)
           = [ReceivedSwapped, ErrChanSend (''unexcepted cert: '' @ SecretName secretResp)]"
    by simp
  have stop: "dispatched i (receiver UnmarshalTo (dispatch_of certs) (pre @ RecvOk resp # rest))
           = dispatched i (receiver UnmarshalTo (dispatch_of certs) pre)"
    by (rule dispatched_receiver_stops [OF round]) simp
  show ?thesis
    using round stop by (simp add: run)
qed

theorem unknown_name_is_protocol_error_witness:
  "receiver (\<lambda>a. a) (dispatch_of [example_cert]) [RecvOk example_resp_unknown, RecvOk example_resp]
     = [ReceivedSwapped, ErrChanSend ''unexcepted cert: b'']
   \<and> dispatched 0 (receiver (\<lambda>a. a) (dispatch_of [example_cert])
                      [RecvOk example_resp, RecvOk example_resp_unknown, RecvOk example_resp])
     = [\<lparr>Version = ''v1'', Secret = example_secret\<rparr>]"
  using unknown_name_is_protocol_error [where resp = example_resp_unknown
      and res = "Inr (example_secret\<lparr>SecretName := ''b''\<rparr>)" and rs = "[]"
      and UnmarshalTo = "\<lambda>a. a" and secretResp = "example_secret\<lparr>SecretName := ''b''\<rparr>"
      and certs = "[example_cert]" and rest = "[RecvOk example_resp]"
      and pre = "[RecvOk example_resp]" and i = 0]
  by (simp add: example_resp_unknown_def example_resp_def example_secret_def example_cert_def
      example_config_def dispatch_of_def receiver_round_def)



text \<open>
  C10. The receiver reads \<^verbatim>\<open>resp.Resources[0]\<close> without a test: for a response with no
  resource the round ends in the panic of an index out of range, after the swap of the
  last-received signal and without anything sent on the error channel; for a response
  with at least one resource the round does not panic and ends either with an error on
  the error channel or with the dispatch to a handler's channel.
\<close>

theorem receiver_round_empty_resources_panics:
  "(Resources resp = [] \<longrightarrow>
       receiver_round UnmarshalTo dispatch resp = ([ReceivedSwapped, IndexPanic], False)
     \<and> receiver UnmarshalTo dispatch (RecvOk resp # rest) = [ReceivedSwapped, IndexPanic])
   \<and> (Resources resp \<noteq> [] \<longrightarrow>
       IndexPanic \<notin> set (fst (receiver_round UnmarshalTo dispatch resp))
     \<and> ((\<exists>msg. receiver_round UnmarshalTo dispatch resp = ([ReceivedSwapped, ErrChanSend msg], False))
        \<or> (\<exists>i rd. receiver_round UnmarshalTo dispatch resp = ([ReceivedSwapped, RespChanSend i rd], True))))"
  using receiver_round_cases [of UnmarshalTo dispatch resp]
  by (auto simp add: receiver_round_def)

theorem receiver_round_empty_resources_panics_witness:
  "receiver_round (\<lambda>a. a) (dispatch_of [example_cert]) example_resp_empty
     = ([ReceivedSwapped, IndexPanic], False)
   \<and> receiver (\<lambda>a. a) (dispatch_of [example_cert]) [RecvOk example_resp_empty, RecvOk example_resp]
     = [ReceivedSwapped, IndexPanic]
   \<and> IndexPanic \<notin> set (fst (receiver_round (\<lambda>a. a) (dispatch_of [example_cert]) example_resp))"
  using receiver_round_empty_resources_panics [where resp = example_resp_empty
      and UnmarshalTo = "\<lambda>a. a" and dispatch = "dispatch_of [example_cert]"
      and rest = "[RecvOk example_resp]"]
    receiver_round_empty_resources_panics [where resp = example_resp
      and UnmarshalTo = "\<lambda>a. a" and dispatch = "dispatch_of [example_cert]"]
  by (simp add: example_resp_empty_def example_resp_def)

text \<open>
  In every round of the receiver the swap of the last-received signal is the first
  thing done with a response, before the decoding and before any dispatch, and it is
  done once.
\<close>

lemma receiver_round_swaps_first:
  "\<exists>rest. fst (receiver_round UnmarshalTo dispatch resp) = ReceivedSwapped # rest
          \<and> ReceivedSwapped \<notin> set rest"
  using receiver_round_cases [of UnmarshalTo dispatch resp] by auto

end
